theory Spec2Isabelle
  imports Main
begin

section \<open>JavaScript values\<close>

text \<open>
  The plugin is TypeScript; event properties are typed \<open>Record<string, any>\<close>, so the
  model carries JavaScript values. Numbers are the integers below \<open>10^21\<close> in
  magnitude, which \<open>toString\<close> and \<open>JSON.stringify\<close> print digit by digit; an
  object is the list of its own properties in enumeration order. Objects used as
  dictionaries are modelled by their own properties: property names inherited from
  \<open>Object.prototype\<close> are outside the model, and an object value is taken to have the
  inherited \<open>toString\<close>.
\<close>

datatype jsval =
    JUndefined
  | JNull
  | JBool bool
  | JNum int
  | JStr string
  | JArr "jsval list"
  | JObj "(string \<times> jsval) list"

text \<open>Truthiness, as \<open>||\<close>, \<open>!\<close> and \<open>if\<close> test it.\<close>

fun truthy :: "jsval \<Rightarrow> bool" where
  "truthy JUndefined = False"
| "truthy JNull = False"
| "truthy (JBool b) = b"
| "truthy (JNum n) = (n \<noteq> 0)"
| "truthy (JStr s) = (s \<noteq> [])"
| "truthy (JArr xs) = True"
| "truthy (JObj ps) = True"

text \<open>\<open>a || b\<close> and \<open>a ?? b\<close> on values.\<close>

definition js_or :: "jsval \<Rightarrow> jsval \<Rightarrow> jsval" where
  "js_or a b = (if truthy a then a else b)"

definition nullish :: "jsval \<Rightarrow> bool" where
  "nullish v = (v = JUndefined \<or> v = JNull)"

text \<open>Member access \<open>obj[key]\<close> on an object given by its own properties.\<close>

definition member :: "(string \<times> jsval) list \<Rightarrow> string \<Rightarrow> jsval" where
  "member ps key = (case map_of ps key of None \<Rightarrow> JUndefined | Some v \<Rightarrow> v)"

subsection \<open>Numbers and strings\<close>

fun digitsOf :: "nat \<Rightarrow> string" where
  "digitsOf n =
     (if n < 10 then [''0123456789'' ! n]
      else digitsOf (n div 10) @ [''0123456789'' ! (n mod 10)])"

declare digitsOf.simps [simp del]

text \<open>\<open>Number.prototype.toString\<close> on an integer.\<close>

definition numberToString :: "int \<Rightarrow> string" where
  "numberToString n = (if n < 0 then ''-'' @ digitsOf (nat (- n)) else digitsOf (nat n))"

fun joinWith :: "string \<Rightarrow> string list \<Rightarrow> string" where
  "joinWith sep [] = []"
| "joinWith sep [x] = x"
| "joinWith sep (x # y # ys) = x @ sep @ joinWith sep (y # ys)"

text \<open>
  \<open>String(v)\<close>: the conversion a value undergoes when it is used as a property key, and
  what \<open>v.toString()\<close> returns for a value that has the method.
\<close>

fun ToString :: "jsval \<Rightarrow> string" where
  "ToString JUndefined = ''undefined''"
| "ToString JNull = ''null''"
| "ToString (JBool b) = (if b then ''true'' else ''false'')"
| "ToString (JNum n) = numberToString n"
| "ToString (JStr s) = s"
| "ToString (JArr xs) =
     joinWith '','' (map (\<lambda>x. if x = JUndefined \<or> x = JNull then [] else ToString x) xs)"
| "ToString (JObj ps) = ''[object Object]''"

subsection \<open>JSON.stringify\<close>

definition hexDigit :: "nat \<Rightarrow> char" where
  "hexDigit n = ''0123456789abcdef'' ! n"

definition jsonEscape :: "char \<Rightarrow> string" where
  "jsonEscape c =
     (if c = CHR 0x22 then [CHR 0x5C, CHR 0x22]
      else if c = CHR 0x5C then [CHR 0x5C, CHR 0x5C]
      else if c = CHR 0x08 then [CHR 0x5C, CHR ''b'']
      else if c = CHR 0x0C then [CHR 0x5C, CHR ''f'']
      else if c = CHR 0x0A then [CHR 0x5C, CHR ''n'']
      else if c = CHR 0x0D then [CHR 0x5C, CHR ''r'']
      else if c = CHR 0x09 then [CHR 0x5C, CHR ''t'']
      else if (of_char c :: nat) < 32
        then [CHR 0x5C, CHR ''u'', CHR ''0'', CHR ''0'',
              hexDigit (of_char c div 16), hexDigit (of_char c mod 16)]
      else [c])"

definition quoteJSON :: "string \<Rightarrow> string" where
  "quoteJSON s = [CHR 0x22] @ concat (map jsonEscape s) @ [CHR 0x22]"

text \<open>
  \<open>stringify v\<close> is \<open>None\<close> where \<open>JSON.stringify\<close> returns \<open>undefined\<close>. Inside an
  array \<open>undefined\<close> prints as \<open>null\<close>; inside an object the property is left out.
\<close>

fun stringify :: "jsval \<Rightarrow> string option"
  and stringifyElements :: "jsval list \<Rightarrow> string list"
  and stringifyProperties :: "(string \<times> jsval) list \<Rightarrow> string list" where
  "stringify JUndefined = None"
| "stringify JNull = Some ''null''"
| "stringify (JBool b) = Some (if b then ''true'' else ''false'')"
| "stringify (JNum n) = Some (numberToString n)"
| "stringify (JStr s) = Some (quoteJSON s)"
| "stringify (JArr xs) = Some (''['' @ joinWith '','' (stringifyElements xs) @ '']'')"
| "stringify (JObj ps) = Some (''{'' @ joinWith '','' (stringifyProperties ps) @ ''}'')"
| "stringifyElements [] = []"
| "stringifyElements (x # xs) =
     (case stringify x of None \<Rightarrow> ''null'' | Some s \<Rightarrow> s) # stringifyElements xs"
| "stringifyProperties [] = []"
| "stringifyProperties (p # ps) =
     (case stringify (snd p) of
        None \<Rightarrow> stringifyProperties ps
      | Some s \<Rightarrow> (quoteJSON (fst p) @ '':'' @ s) # stringifyProperties ps)"

definition JSON_stringify :: "jsval \<Rightarrow> jsval" where
  "JSON_stringify v = (case stringify v of None \<Rightarrow> JUndefined | Some s \<Rightarrow> JStr s)"

subsection \<open>parseInt\<close>

text \<open>
  \<open>parseInt(s)\<close> without a radix: leading (ASCII) white space is skipped, a sign is read, a
  \<open>0x\<close> prefix selects radix 16, and the longest prefix of digits is the value; with no
  digit the result is \<open>NaN\<close>, here \<open>None\<close>. A missing configuration value reaches
  \<open>parseInt\<close> as \<open>undefined\<close>, which it reads as the string \<open>undefined\<close>.
\<close>

definition isWhiteSpace :: "char \<Rightarrow> bool" where
  "isWhiteSpace c = (c \<in> set [CHR 0x09, CHR 0x0A, CHR 0x0B, CHR 0x0C, CHR 0x0D, CHR 0x20])"

definition digitValue :: "char \<Rightarrow> nat option" where
  "digitValue c =
     map_of (zip ''0123456789abcdefghijklmnopqrstuvwxyz'' [0 ..< 36]
           @ zip ''ABCDEFGHIJKLMNOPQRSTUVWXYZ'' [10 ..< 36]) c"

definition isDigitIn :: "nat \<Rightarrow> char \<Rightarrow> bool" where
  "isDigitIn radix c = (case digitValue c of None \<Rightarrow> False | Some d \<Rightarrow> d < radix)"

definition digitsValue :: "nat \<Rightarrow> string \<Rightarrow> nat" where
  "digitsValue radix ds = foldl (\<lambda>acc c. acc * radix + the (digitValue c)) 0 ds"

definition parseInt :: "string option \<Rightarrow> int option" where
  "parseInt input =
     (let s0 = dropWhile isWhiteSpace (case input of None \<Rightarrow> ''undefined'' | Some s \<Rightarrow> s);
          negative = (s0 \<noteq> [] \<and> hd s0 = CHR ''-'');
          s1 = (if s0 \<noteq> [] \<and> (hd s0 = CHR ''+'' \<or> hd s0 = CHR ''-'') then tl s0 else s0);
          hex = (take 2 s1 = ''0x'' \<or> take 2 s1 = ''0X'');
          radix = (if hex then 16 else 10);
          s2 = (if hex then drop 2 s1 else s1);
          ds = takeWhile (isDigitIn radix) s2
      in if ds = [] then None
         else Some ((if negative then - 1 else 1) * int (digitsValue radix ds)))"

section \<open>Configuration\<close>

record config =
  awsAccessKey :: "string option"
  awsSecretAccessKey :: "string option"
  awsRegion :: "string option"
  applicationId :: "string option"
  uploadSeconds :: "string option"
  uploadMegabytes :: "string option"
  uploadKilobytes :: "string option"

text \<open>\<open>parseInt(x) || 1\<close>: \<open>NaN\<close> and \<open>0\<close> are falsy.\<close>

definition orOne :: "int option \<Rightarrow> int" where
  "orOne p = (case p of None \<Rightarrow> 1 | Some n \<Rightarrow> if n = 0 then 1 else n)"

text \<open>
  The local constants of \<open>setupPlugin\<close>:
  \<open>Math.max(1, Math.min(parseInt(config.uploadMegabytes) || 1, 100))\<close> in
  \<open>src/index.ts\<close>, the same expression over \<open>config.uploadKilobytes\<close> in the other
  variant, and \<open>Math.max(1, Math.min(parseInt(config.uploadSeconds) || 1, 60))\<close> in both.
\<close>

definition uploadMegabytesLimit :: "config \<Rightarrow> int" where
  "uploadMegabytesLimit cfg = max 1 (min (orOne (parseInt (uploadMegabytes cfg))) 100)"

definition uploadKilobytesLimit :: "config \<Rightarrow> int" where
  "uploadKilobytesLimit cfg = max 1 (min (orOne (parseInt (uploadKilobytes cfg))) 100)"

definition uploadSecondsLimit :: "config \<Rightarrow> int" where
  "uploadSecondsLimit cfg = max 1 (min (orOne (parseInt (uploadSeconds cfg))) 60)"

text \<open>
  \<open>setupPlugin\<close>: the four credentials are tested with \<open>!\<close> (a missing and an empty
  string are falsy) and the first one that fails aborts the setup with its message;
  otherwise the buffer is created with the options computed from the limits. The first
  definition is the one of \<open>src/unnamed/part_000\<close>, the second the one of
  \<open>src/index.ts\<close>.
\<close>

definition missing :: "string option \<Rightarrow> bool" where
  "missing s = (s = None \<or> s = Some [])"

record bufferOptions =
  limit :: int
  timeoutSeconds :: int

definition setupPlugin :: "config \<Rightarrow> string + bufferOptions" where
  "setupPlugin cfg =
     (if missing (awsAccessKey cfg) then Inl ''AWS access key missing!''
      else if missing (awsSecretAccessKey cfg) then Inl ''AWS secret access key missing!''
      else if missing (awsRegion cfg) then Inl ''AWS region missing!''
      else if missing (applicationId cfg) then Inl ''ApplicationId missing!''
      else Inr \<lparr>limit = uploadKilobytesLimit cfg * 1024 * 1024,
                timeoutSeconds = uploadSecondsLimit cfg\<rparr>)"

definition setupPlugin_index :: "config \<Rightarrow> string + bufferOptions" where
  "setupPlugin_index cfg =
     (if missing (awsAccessKey cfg) then Inl ''AWS access key missing!''
      else if missing (awsSecretAccessKey cfg) then Inl ''AWS secret access key missing!''
      else if missing (awsRegion cfg) then Inl ''AWS region missing!''
      else if missing (applicationId cfg) then Inl ''ApplicationId missing!''
      else Inr \<lparr>limit = uploadMegabytesLimit cfg * 1024 * 1024,
                timeoutSeconds = uploadSecondsLimit cfg\<rparr>)"

section \<open>The host's events and the outside world\<close>

text \<open>
  A \<open>PluginEvent\<close> as the host delivers it. The fields the plugin reads are typed as the
  scaffold declares them; \<open>otherFields\<close> holds the remaining own properties of the event
  object (\<open>ip\<close>, \<open>team_id\<close>, \<open>now\<close>, ...).
\<close>

record PluginEvent =
  distinct_id :: string
  site_url :: string
  event :: string
  properties :: "(string \<times> jsval) list option"
  timestamp :: "string option"
  uuid :: "string option"
  otherFields :: "(string \<times> jsval) list"

definition optional :: "string option \<Rightarrow> jsval" where
  "optional x = (case x of None \<Rightarrow> JUndefined | Some s \<Rightarrow> JStr s)"

text \<open>\<open>event[key]\<close>: member access on the event object itself.\<close>

definition eventField :: "PluginEvent \<Rightarrow> string \<Rightarrow> jsval" where
  "eventField e key =
     (if key = ''distinct_id'' then JStr (distinct_id e)
      else if key = ''site_url'' then JStr (site_url e)
      else if key = ''event'' then JStr (event e)
      else if key = ''properties''
        then (case properties e of None \<Rightarrow> JUndefined | Some ps \<Rightarrow> JObj ps)
      else if key = ''timestamp'' then optional (timestamp e)
      else if key = ''uuid'' then optional (uuid e)
      else member (otherFields e) key)"

text \<open>\<open>event.properties?.key\<close>\<close>

definition property :: "PluginEvent \<Rightarrow> string \<Rightarrow> jsval" where
  "property e key = (case properties e of None \<Rightarrow> JUndefined | Some ps \<Rightarrow> member ps key)"

text \<open>\<open>Object.keys(event.properties ?? {})\<close>\<close>

definition propertyKeys :: "PluginEvent \<Rightarrow> string list" where
  "propertyKeys e = (case properties e of None \<Rightarrow> [] | Some ps \<Rightarrow> map fst ps)"

text \<open>
  The sources of nondeterminism, as the sequences of results the next calls will return:
  \<open>Math.floor(Math.random() * 1000000)\<close>, \<open>randomUUID()\<close> and
  \<open>new Date().getTime()\<close>. A call takes the head of its sequence and leaves the rest.
\<close>

record world =
  floorRandom :: "nat \<Rightarrow> nat"
  randomUUID :: "nat \<Rightarrow> string"
  getTime :: "nat \<Rightarrow> int"

definition nextRandom :: "world \<Rightarrow> string \<times> world" where
  "nextRandom w =
     (numberToString (int (floorRandom w 0 mod 1000000)),
      w\<lparr>floorRandom := \<lambda>i. floorRandom w (Suc i)\<rparr>)"

definition nextUUID :: "world \<Rightarrow> string \<times> world" where
  "nextUUID w = (randomUUID w 0, w\<lparr>randomUUID := \<lambda>i. randomUUID w (Suc i)\<rparr>)"

definition nextTime :: "world \<Rightarrow> string \<times> world" where
  "nextTime w = (numberToString (getTime w 0), w\<lparr>getTime := \<lambda>i. getTime w (Suc i)\<rparr>)"

section \<open>The wire format\<close>

record Event =
  AppPackageName :: string
  AppTitle :: string
  AppVersionCode :: string
  Attributes :: "string \<rightharpoonup> jsval"
  ClientSdkVersion :: jsval
  EventType :: string
  Metrics :: "string \<rightharpoonup> jsval"
  SdkName :: jsval
  Timestamp :: jsval

record EventsBatch =
  Endpoint :: jsval
  Events :: "string \<rightharpoonup> Event"

record command =
  ApplicationId :: "string option"
  BatchItem :: "string \<rightharpoonup> EventsBatch"

section \<open>The variant with immediate dispatch (\<open>src/unnamed/part_000\<close>)\<close>

definition typeof :: "jsval \<Rightarrow> string" where
  "typeof v =
     (case v of
        JUndefined \<Rightarrow> ''undefined''
      | JBool b \<Rightarrow> ''boolean''
      | JNum n \<Rightarrow> ''number''
      | JStr s \<Rightarrow> ''string''
      | _ \<Rightarrow> ''object'')"

text \<open>
  \<open>getAttribute(properties, key)\<close>. Its first argument is an object, given by its member
  access, or nullish (\<open>None\<close>), which \<open>properties ?? {}\<close> replaces by the empty object.
\<close>

definition getAttribute :: "(string \<Rightarrow> jsval) option \<Rightarrow> string \<Rightarrow> jsval" where
  "getAttribute props key =
     (let value = (case props of None \<Rightarrow> JUndefined | Some obj \<Rightarrow> obj key)
      in if typeof value = ''number'' \<or> typeof value = ''boolean'' then JStr (ToString value)
         else if typeof value \<noteq> ''string'' then JSON_stringify value
         else value)"

text \<open>\<open>v?.toString()\<close>\<close>

definition optToString :: "jsval \<Rightarrow> jsval" where
  "optToString v = (if nullish v then JUndefined else JStr (ToString v))"

definition getEndpoint :: "PluginEvent \<Rightarrow> jsval" where
  "getEndpoint e =
     (if truthy (property e ''$device_id'') then
        JObj
         [(''Address'', JStr (site_url e)),
          (''Attributes'', JObj
            [(''screen_density'', JArr [js_or (optToString (property e ''$screen_density'')) (JStr [])]),
             (''screen_height'', JArr [js_or (optToString (property e ''$screen_height'')) (JStr [])]),
             (''screen_name'', JArr [js_or (optToString (property e ''$screen_name'')) (JStr [])]),
             (''screen_width'', JArr [js_or (optToString (property e ''$screen_width'')) (JStr [])]),
             (''viewport_height'', JArr [js_or (optToString (property e ''$viewport_height'')) (JStr [])]),
             (''viewport_width'', JArr [js_or (optToString (property e ''$viewport_width'')) (JStr [])])]),
          (''ChannelType'', property e ''$lib''),
          (''Demographic'', JObj
            [(''AppVersion'', property e ''$app_version''),
             (''Locale'', property e ''$locale''),
             (''Make'', js_or (property e ''$device_manufacturer'') (property e ''$device_type'')),
             (''Model'', js_or (property e ''$device_model'') (property e ''$os'')),
             (''Platform'', js_or (property e ''$os_name'') (property e ''$browser'')),
             (''PlatformVersion'',
                js_or (optToString (property e ''$os_version''))
                      (optToString (property e ''$browser_version''))),
             (''Timezone'', property e ''$geoip_time_zone'')]),
          (''EffectiveDate'', optional (timestamp e)),
          (''Location'', JObj
            [(''City'', property e ''$geoip_city_name''),
             (''Country'', property e ''$geoip_country_name''),
             (''Latitude'', property e ''$geoip_latitude''),
             (''Longitude'', property e ''$geoip_longitude''),
             (''PostalCode'', property e ''$geoip_postal_code''),
             (''Region'', property e ''$geoip_subdivision_1_code'')]),
          (''Metrics'', JObj []),
          (''RequestId'', optional (uuid e)),
          (''User'', JObj [(''UserId'', property e ''$user_id'')])]
      else JObj [])"

text \<open>
  The callback of the \<open>reduce\<close> in \<open>getEvents\<close>. The accumulator it receives is
  replaced, not extended. \<open>event.uuid ?? randomUUID()\<close> and
  \<open>event.timestamp || new Date().getTime().toString()\<close> consult the outside world only
  when the left operand does not decide. Console output is not part of the model.
\<close>

definition getEventsReducer ::
  "(string \<rightharpoonup> Event) \<times> world \<Rightarrow> PluginEvent \<Rightarrow> (string \<rightharpoonup> Event) \<times> world" where
  "getEventsReducer acc e =
     (let w = snd acc;
          (eventKey, w1) = (case uuid e of Some u \<Rightarrow> (u, w) | None \<Rightarrow> nextUUID w);
          (time, w2) =
            (case timestamp e of
               Some t \<Rightarrow> if t \<noteq> [] then (t, w1) else nextTime w1
             | None \<Rightarrow> nextTime w1);
          pinpointEvent =
            \<lparr>AppPackageName = ''string;'',
             AppTitle = ''string;'',
             AppVersionCode = ''string;'',
             Attributes =
               foldl (\<lambda>attributes key.
                        [key \<mapsto> getAttribute (Some (eventField e)) key] ++ attributes)
                     Map.empty (propertyKeys e),
             ClientSdkVersion = property e ''$lib_version'',
             EventType = event e,
             Metrics = Map.empty,
             SdkName = property e ''$lib'',
             Timestamp = JStr time\<rparr>
      in ([eventKey \<mapsto> pinpointEvent], w2))"

definition getEvents :: "world \<Rightarrow> PluginEvent list \<Rightarrow> (string \<rightharpoonup> Event) \<times> world" where
  "getEvents w events = foldl getEventsReducer (Map.empty, w) events"

text \<open>
  \<open>e.properties?.$device_id || Math.floor(Math.random() * 1000000).toString()\<close>, as the
  property key it is used for.
\<close>

definition batchKeyOf :: "world \<Rightarrow> PluginEvent \<Rightarrow> string \<times> world" where
  "batchKeyOf w e =
     (if truthy (property e ''$device_id'') then (ToString (property e ''$device_id''), w)
      else nextRandom w)"

text \<open>The callback of the \<open>reduce\<close> in \<open>sendToPinpoint\<close>.\<close>

definition batchReducer ::
  "(string \<rightharpoonup> EventsBatch) \<times> world \<Rightarrow> PluginEvent \<Rightarrow> (string \<rightharpoonup> EventsBatch) \<times> world" where
  "batchReducer acc e =
     (let batchEvents = fst acc;
          (batchKey, w1) = batchKeyOf (snd acc) e;
          (pinpointEvents, w2) = getEvents w1 [e];
          pinpointEndpoint = getEndpoint e;
          pinpointEvents' =
            (case batchEvents batchKey of
               Some item \<Rightarrow> pinpointEvents ++ Events item
             | None \<Rightarrow> pinpointEvents)
      in (batchEvents(batchKey \<mapsto> \<lparr>Endpoint = pinpointEndpoint, Events = pinpointEvents'\<rparr>), w2))"

text \<open>
  \<open>sendToPinpoint\<close> builds the command and hands it to \<open>putEvents\<close>; the model returns
  the command submitted and the world left behind.
\<close>

definition sendToPinpoint :: "config \<Rightarrow> world \<Rightarrow> PluginEvent list \<Rightarrow> command \<times> world" where
  "sendToPinpoint cfg w events =
     (let r = foldl batchReducer (Map.empty, w) events
      in (\<lparr>ApplicationId = applicationId cfg, BatchItem = fst r\<rparr>, snd r))"

text \<open>
  The buffer's flush callback of \<open>setupPlugin\<close>: \<open>if (events?.length)\<close> guards the
  dispatch. The result is the list of commands submitted to the client.
\<close>

definition onFlush :: "config \<Rightarrow> world \<Rightarrow> PluginEvent list \<Rightarrow> command list" where
  "onFlush cfg w events =
     (if length events \<noteq> 0 then [fst (sendToPinpoint cfg w events)] else [])"

section \<open>The buffered variant (\<open>src/index.ts\<close>)\<close>

definition fillEndpoint :: "PluginEvent \<Rightarrow> jsval" where
  "fillEndpoint e =
     (if truthy (property e ''$device_id'') then
        JObj
         [(''Address'', JStr (site_url e)),
          (''Attributes'', JObj
            [(''screen_density'', property e ''$screen_density''),
             (''screen_height'', property e ''$screen_height''),
             (''screen_name'', property e ''$screen_name''),
             (''screen_width'', property e ''$screen_width''),
             (''viewport_height'', property e ''$viewport_height''),
             (''viewport_width'', property e ''$viewport_width'')]),
          (''ChannelType'', property e ''$lib''),
          (''Demographic'', JObj
            [(''AppVersion'', property e ''$app_version''),
             (''Locale'', property e ''$locale''),
             (''Make'', js_or (property e ''$device_manufacturer'') (property e ''$device_type'')),
             (''Model'', js_or (property e ''$device_model'') (property e ''$os'')),
             (''Platform'', js_or (property e ''$os_name'') (property e ''$browser'')),
             (''PlatformVersion'',
                js_or (property e ''$os_version'') (property e ''$browser_version'')),
             (''Timezone'', property e ''$geoip_time_zone'')]),
          (''EffectiveDate'', optional (timestamp e)),
          (''Location'', JObj
            [(''City'', property e ''$geoip_city_name''),
             (''Country'', property e ''$geoip_country_name''),
             (''Latitude'', property e ''$geoip_latitude''),
             (''Longitude'', property e ''$geoip_longitude''),
             (''PostalCode'', property e ''$geoip_postal_code''),
             (''Region'', property e ''$geoip_subdivision_1_code'')]),
          (''Metrics'', JObj []),
          (''RequestId'', optional (uuid e)),
          (''User'', JObj [(''UserId'', property e ''$user_id'')])]
      else JObj [])"

text \<open>
  The callback of the \<open>reduce\<close> in \<open>fillEvents\<close>: the record is keyed by
  \<open>event.distinct_id\<close>, and every attribute is \<open>JSON.stringify\<close> of the property.
\<close>

definition fillEventsReducer :: "(string \<rightharpoonup> Event) \<Rightarrow> PluginEvent \<Rightarrow> (string \<rightharpoonup> Event)" where
  "fillEventsReducer pinpointEvents e =
     [distinct_id e \<mapsto>
        \<lparr>AppPackageName = ''string;'',
         AppTitle = ''string;'',
         AppVersionCode = ''string;'',
         Attributes =
           foldl (\<lambda>attributes key. [key \<mapsto> JSON_stringify (property e key)] ++ attributes)
                 Map.empty (propertyKeys e),
         ClientSdkVersion = property e ''$lib_version'',
         EventType = event e,
         Metrics =
           [''screen_density'' \<mapsto> property e ''$screen_density'',
            ''screen_height'' \<mapsto> property e ''$screen_height'',
            ''screen_name'' \<mapsto> property e ''$screen_name'',
            ''screen_width'' \<mapsto> property e ''$screen_width'',
            ''viewport_height'' \<mapsto> property e ''$viewport_height'',
            ''viewport_width'' \<mapsto> property e ''$viewport_width''],
         SdkName = property e ''$lib'',
         Timestamp = optional (timestamp e)\<rparr>]"

definition fillEvents :: "PluginEvent list \<Rightarrow> (string \<rightharpoonup> Event)" where
  "fillEvents events = foldl fillEventsReducer Map.empty events"

datatype js_error = TypeError

text \<open>
  The callback of the \<open>reduce\<close> in this variant's \<open>sendToPinpoint\<close>. It reads
  \<open>batchEvents[batchKey].Events\<close> without testing \<open>batchEvents[batchKey]\<close>: reading a
  property of \<open>undefined\<close> throws a \<open>TypeError\<close>.
\<close>

definition batchReducer_index ::
  "(string \<rightharpoonup> EventsBatch) \<times> world \<Rightarrow> PluginEvent
     \<Rightarrow> js_error + (string \<rightharpoonup> EventsBatch) \<times> world" where
  "batchReducer_index acc e =
     (let batchEvents = fst acc;
          (batchKey, w1) = batchKeyOf (snd acc) e
      in case batchEvents batchKey of
           None \<Rightarrow> Inl TypeError
         | Some item \<Rightarrow>
             Inr (batchEvents(batchKey \<mapsto>
                    \<lparr>Endpoint = fillEndpoint e, Events = fillEvents [e] ++ Events item\<rparr>), w1))"

text \<open>\<open>reduce\<close> with a callback that may throw: the first exception ends the loop.\<close>

fun reduceThrowing :: "('a \<Rightarrow> 'b \<Rightarrow> js_error + 'a) \<Rightarrow> 'a \<Rightarrow> 'b list \<Rightarrow> js_error + 'a" where
  "reduceThrowing f acc [] = Inr acc"
| "reduceThrowing f acc (x # xs) =
     (case f acc x of Inl err \<Rightarrow> Inl err | Inr acc' \<Rightarrow> reduceThrowing f acc' xs)"

text \<open>
  \<open>sendToPinpoint\<close> of this variant: the command handed to \<open>global.pinpoint.send\<close>, or
  the exception thrown before the call is reached.
\<close>

definition sendToPinpoint_index ::
  "config \<Rightarrow> world \<Rightarrow> PluginEvent list \<Rightarrow> js_error + command \<times> world" where
  "sendToPinpoint_index cfg w events =
     (case reduceThrowing batchReducer_index (Map.empty, w) events of
        Inl err \<Rightarrow> Inl err
      | Inr r \<Rightarrow> Inr (\<lparr>ApplicationId = applicationId cfg, BatchItem = fst r\<rparr>, snd r))"

text \<open>
  The flush callback of this variant calls \<open>sendToPinpoint\<close> unconditionally. The result
  is the list of commands submitted to the client, or the exception that rejects the
  callback's promise.
\<close>

definition onFlush_index :: "config \<Rightarrow> world \<Rightarrow> PluginEvent list \<Rightarrow> js_error + command list" where
  "onFlush_index cfg w events =
     (case sendToPinpoint_index cfg w events of
        Inl err \<Rightarrow> Inl err
      | Inr r \<Rightarrow> Inr [fst r])"

section \<open>Observing a run of the dispatcher\<close>

text \<open>
  The key under which \<open>getEvents\<close> files an event in world \<open>w\<close>, the world one pass of
  the dispatcher's callback leaves behind, and the batch keys and event keys the events
  of a list receive, in the order of processing.
\<close>

definition eventKeyOf :: "world \<Rightarrow> PluginEvent \<Rightarrow> string" where
  "eventKeyOf w e = fst (case uuid e of Some u \<Rightarrow> (u, w) | None \<Rightarrow> nextUUID w)"

definition afterEvent :: "world \<Rightarrow> PluginEvent \<Rightarrow> world" where
  "afterEvent w e = snd (batchReducer (Map.empty, w) e)"


fun eventKeys :: "world \<Rightarrow> PluginEvent list \<Rightarrow> string list" where
  "eventKeys w [] = []"
| "eventKeys w (e # es) = eventKeyOf w e # eventKeys (afterEvent w e) es"


section \<open>Sample inputs\<close>

definition sampleConfig :: config where
  "sampleConfig =
     \<lparr>awsAccessKey = Some ''key'', awsSecretAccessKey = Some ''secret'',
      awsRegion = Some ''eu-west-1'', applicationId = Some ''app'',
      uploadSeconds = None, uploadMegabytes = Some ''abc'', uploadKilobytes = Some ''-5''\<rparr>"

definition largeConfig :: config where
  "largeConfig =
     \<lparr>awsAccessKey = Some ''key'', awsSecretAccessKey = Some ''secret'',
      awsRegion = Some ''eu-west-1'', applicationId = Some ''app'',
      uploadSeconds = Some ''3600'', uploadMegabytes = Some ''500'',
      uploadKilobytes = Some ''500''\<rparr>"

definition sampleWorld :: world where
  "sampleWorld =
     \<lparr>floorRandom = (\<lambda>i. 7), randomUUID = (\<lambda>i. ''generated''),
      getTime = (\<lambda>i. 1700000000000)\<rparr>"

definition otherWorld :: world where
  "otherWorld =
     \<lparr>floorRandom = (\<lambda>i. 8), randomUUID = (\<lambda>i. ''another''),
      getTime = (\<lambda>i. 1800000000000)\<rparr>"

definition sampleEvent ::
  "string \<Rightarrow> string option \<Rightarrow> (string \<times> jsval) list option \<Rightarrow> PluginEvent" where
  "sampleEvent name u ps =
     \<lparr>distinct_id = ''user1'', site_url = ''https://app.example'', event = name,
      properties = ps, timestamp = Some ''2023-01-01T00:00:00.000Z'', uuid = u,
      otherFields = [(''ip'', JNull), (''team_id'', JNum 1)]\<rparr>"

definition viewWidth :: PluginEvent where
  "viewWidth =
     sampleEvent ''pageview'' (Some ''u1'')
       (Some [(''$device_id'', JStr ''d1''), (''$screen_width'', JNum 1024)])"

definition viewHeight :: PluginEvent where
  "viewHeight =
     sampleEvent ''pageview'' (Some ''u2'')
       (Some [(''$device_id'', JStr ''d1''), (''$screen_height'', JNum 768)])"

definition clickSameId :: PluginEvent where
  "clickSameId =
     sampleEvent ''click'' (Some ''u1'') (Some [(''$device_id'', JStr ''d1'')])"

definition viewOtherDevice :: PluginEvent where
  "viewOtherDevice =
     sampleEvent ''pageview'' (Some ''u3'') (Some [(''$device_id'', JStr ''d2'')])"

definition viewNumericDevice :: PluginEvent where
  "viewNumericDevice =
     sampleEvent ''pageview'' (Some ''u4'') (Some [(''$device_id'', JNum 5)])"

definition viewTextDevice :: PluginEvent where
  "viewTextDevice =
     sampleEvent ''pageview'' (Some ''u5'') (Some [(''$device_id'', JStr ''5'')])"

definition labelled :: PluginEvent where
  "labelled =
     sampleEvent ''pageview'' None (Some [(''$device_id'', JStr ''d1''), (''label'', JStr ''x'')])"

section \<open>Properties\<close>

subsection \<open>Configuration limits\<close>

lemma parseInt_missing: "parseInt None = None"
  by code_simp

lemma orOne_clamp:
  "max 1 (min (orOne p) hi) =
     (case p of None \<Rightarrow> 1 | Some n \<Rightarrow> if n < 1 then 1 else if hi < n then max 1 hi else n)"
  by (auto simp: orOne_def split: option.splits)

lemma limits_values:
  "uploadMegabytesLimit cfg =
     (case parseInt (uploadMegabytes cfg) of
        None \<Rightarrow> 1 | Some n \<Rightarrow> if n < 1 then 1 else if 100 < n then 100 else n)"
  "uploadKilobytesLimit cfg =
     (case parseInt (uploadKilobytes cfg) of
        None \<Rightarrow> 1 | Some n \<Rightarrow> if n < 1 then 1 else if 100 < n then 100 else n)"
  "uploadSecondsLimit cfg =
     (case parseInt (uploadSeconds cfg) of
        None \<Rightarrow> 1 | Some n \<Rightarrow> if n < 1 then 1 else if 60 < n then 60 else n)"
  unfolding uploadMegabytesLimit_def uploadKilobytesLimit_def uploadSecondsLimit_def
  by (simp_all add: orOne_clamp)

lemma setupPlugin_options:
  "setupPlugin cfg = Inr opts \<Longrightarrow>
     limit opts = uploadKilobytesLimit cfg * 1024 * 1024 \<and>
     timeoutSeconds opts = uploadSecondsLimit cfg"
  "setupPlugin_index cfg = Inr opts \<Longrightarrow>
     limit opts = uploadMegabytesLimit cfg * 1024 * 1024 \<and>
     timeoutSeconds opts = uploadSecondsLimit cfg"
  by (auto simp: setupPlugin_def setupPlugin_index_def split: if_splits)

text \<open>
  C8, as amended. For every configuration the size limit (\<open>uploadMegabytes\<close> in
  \<open>src/index.ts\<close>, \<open>uploadKilobytes\<close> in the other variant) lies in [1, 100] and the
  upload interval in [1, 60]. Each is 1 when \<open>parseInt\<close> finds no integer (the value is
  missing or does not start with one) or finds one below 1, is the upper bound when the
  integer exceeds it, and is the integer itself otherwise. \<open>setupPlugin\<close> hands the
  limits to the buffer: the size limit times 1024 * 1024, and the interval as it is.
\<close>

theorem limits_clamped:
  "1 \<le> uploadMegabytesLimit cfg \<and> uploadMegabytesLimit cfg \<le> 100 \<and>
   1 \<le> uploadKilobytesLimit cfg \<and> uploadKilobytesLimit cfg \<le> 100 \<and>
   1 \<le> uploadSecondsLimit cfg \<and> uploadSecondsLimit cfg \<le> 60 \<and>
   uploadMegabytesLimit cfg =
     (case parseInt (uploadMegabytes cfg) of
        None \<Rightarrow> 1 | Some n \<Rightarrow> if n < 1 then 1 else if 100 < n then 100 else n) \<and>
   uploadKilobytesLimit cfg =
     (case parseInt (uploadKilobytes cfg) of
        None \<Rightarrow> 1 | Some n \<Rightarrow> if n < 1 then 1 else if 100 < n then 100 else n) \<and>
   uploadSecondsLimit cfg =
     (case parseInt (uploadSeconds cfg) of
        None \<Rightarrow> 1 | Some n \<Rightarrow> if n < 1 then 1 else if 60 < n then 60 else n) \<and>
   (uploadMegabytes cfg = None \<longrightarrow> uploadMegabytesLimit cfg = 1) \<and>
   (uploadKilobytes cfg = None \<longrightarrow> uploadKilobytesLimit cfg = 1) \<and>
   (uploadSeconds cfg = None \<longrightarrow> uploadSecondsLimit cfg = 1) \<and>
   (setupPlugin cfg = Inr opts \<longrightarrow>
      limit opts = uploadKilobytesLimit cfg * 1024 * 1024 \<and>
      timeoutSeconds opts = uploadSecondsLimit cfg) \<and>
   (setupPlugin_index cfg = Inr opts \<longrightarrow>
      limit opts = uploadMegabytesLimit cfg * 1024 * 1024 \<and>
      timeoutSeconds opts = uploadSecondsLimit cfg)"
proof -
  have bounds: "1 \<le> uploadMegabytesLimit cfg \<and> uploadMegabytesLimit cfg \<le> 100 \<and>
      1 \<le> uploadKilobytesLimit cfg \<and> uploadKilobytesLimit cfg \<le> 100 \<and>
      1 \<le> uploadSecondsLimit cfg \<and> uploadSecondsLimit cfg \<le> 60"
    by (simp add: uploadMegabytesLimit_def uploadKilobytesLimit_def uploadSecondsLimit_def)
  have absent: "(uploadMegabytes cfg = None \<longrightarrow> uploadMegabytesLimit cfg = 1) \<and>
      (uploadKilobytes cfg = None \<longrightarrow> uploadKilobytesLimit cfg = 1) \<and>
      (uploadSeconds cfg = None \<longrightarrow> uploadSecondsLimit cfg = 1)"
    by (simp add: limits_values parseInt_missing)
  have options: "(setupPlugin cfg = Inr opts \<longrightarrow>
        limit opts = uploadKilobytesLimit cfg * 1024 * 1024 \<and>
        timeoutSeconds opts = uploadSecondsLimit cfg) \<and>
      (setupPlugin_index cfg = Inr opts \<longrightarrow>
        limit opts = uploadMegabytesLimit cfg * 1024 * 1024 \<and>
        timeoutSeconds opts = uploadSecondsLimit cfg)"
    using setupPlugin_options [of cfg opts] by simp
  have vals: "uploadMegabytesLimit cfg =
       (case parseInt (uploadMegabytes cfg) of
          None \<Rightarrow> 1 | Some n \<Rightarrow> if n < 1 then 1 else if 100 < n then 100 else n) \<and>
     uploadKilobytesLimit cfg =
       (case parseInt (uploadKilobytes cfg) of
          None \<Rightarrow> 1 | Some n \<Rightarrow> if n < 1 then 1 else if 100 < n then 100 else n) \<and>
     uploadSecondsLimit cfg =
       (case parseInt (uploadSeconds cfg) of
          None \<Rightarrow> 1 | Some n \<Rightarrow> if n < 1 then 1 else if 60 < n then 60 else n)"
    by (intro conjI) (rule limits_values)+
  from bounds vals absent options show ?thesis
    by (elim conjE) (intro conjI; assumption)
qed

text \<open>
  At \<open>sampleConfig\<close> the interval is missing, the megabytes are \<open>abc\<close> and the
  kilobytes are \<open>-5\<close>: all three limits are 1, and the buffer is set up with a limit
  of 1048576 and a timeout of one second.
\<close>

theorem limits_clamped_witness:
  "uploadSeconds sampleConfig = None \<and>
   parseInt (uploadMegabytes sampleConfig) = None \<and>
   parseInt (uploadKilobytes sampleConfig) = Some (- 5) \<and>
   uploadMegabytesLimit sampleConfig = 1 \<and>
   uploadKilobytesLimit sampleConfig = 1 \<and>
   uploadSecondsLimit sampleConfig = 1 \<and>
   setupPlugin sampleConfig = Inr \<lparr>limit = 1048576, timeoutSeconds = 1\<rparr> \<and>
   setupPlugin_index sampleConfig = Inr \<lparr>limit = 1048576, timeoutSeconds = 1\<rparr>"
proof -
  note inst = limits_clamped [of sampleConfig "\<lparr>limit = 1048576, timeoutSeconds = 1\<rparr>"]
  have a: "parseInt (uploadMegabytes sampleConfig) = None" by code_simp
  have b: "parseInt (uploadKilobytes sampleConfig) = Some (- 5)" by code_simp
  have c: "uploadSeconds sampleConfig = None" by (simp add: sampleConfig_def)
  have m: "uploadMegabytesLimit sampleConfig = 1" using inst a by simp
  have k: "uploadKilobytesLimit sampleConfig = 1" using inst b by simp
  have s: "uploadSecondsLimit sampleConfig = 1" using inst c by simp
  have p: "setupPlugin sampleConfig = Inr \<lparr>limit = 1048576, timeoutSeconds = 1\<rparr>"
    by (simp add: setupPlugin_def missing_def k s) (simp add: sampleConfig_def)
  have q: "setupPlugin_index sampleConfig = Inr \<lparr>limit = 1048576, timeoutSeconds = 1\<rparr>"
    by (simp add: setupPlugin_index_def missing_def m s) (simp add: sampleConfig_def)
  show ?thesis using a b c m k s p q by simp
qed

text \<open>
  The claim as written fails above the range: \<open>500\<close> and \<open>3600\<close> are out of range,
  and the limits are the maxima 100 and 60, not 1.
\<close>

theorem limits_out_of_range_counterexample:
  "parseInt (uploadKilobytes largeConfig) = Some 500 \<and>
   parseInt (uploadMegabytes largeConfig) = Some 500 \<and>
   parseInt (uploadSeconds largeConfig) = Some 3600 \<and>
   uploadKilobytesLimit largeConfig = 100 \<and>
   uploadMegabytesLimit largeConfig = 100 \<and>
   uploadSecondsLimit largeConfig = 60 \<and>
   uploadKilobytesLimit largeConfig \<noteq> 1 \<and>
   uploadMegabytesLimit largeConfig \<noteq> 1 \<and>
   uploadSecondsLimit largeConfig \<noteq> 1"
proof -
  have a: "parseInt (uploadKilobytes largeConfig) = Some 500" by code_simp
  have b: "parseInt (uploadMegabytes largeConfig) = Some 500" by code_simp
  have c: "parseInt (uploadSeconds largeConfig) = Some 3600" by code_simp
  show ?thesis
    by (simp add: a b c uploadKilobytesLimit_def uploadMegabytesLimit_def
        uploadSecondsLimit_def orOne_def)
qed

subsection \<open>The per-event record builders\<close>

lemma getEvents_single: "getEvents w [e] = getEventsReducer (Map.empty, w) e"
  by (simp add: getEvents_def)

lemma getEventsReducer_acc: "getEventsReducer (m, w) e = getEventsReducer (Map.empty, w) e"
  by (simp add: getEventsReducer_def)

lemma dom_getEventsReducer: "dom (fst (getEventsReducer (m, w) e)) = {eventKeyOf w e}"
  by (simp add: getEventsReducer_def eventKeyOf_def Let_def case_prod_beta)

lemma dom_getEvents_single: "dom (fst (getEvents w [e])) = {eventKeyOf w e}"
  by (simp add: getEvents_single dom_getEventsReducer)

lemma getEvents_snoc:
  "getEvents w (es @ [e]) = getEvents (snd (getEvents w es)) [e]"
proof -
  have "getEvents w (es @ [e]) = getEventsReducer (getEvents w es) e"
    by (simp add: getEvents_def)
  also have "\<dots> = getEventsReducer (fst (getEvents w es), snd (getEvents w es)) e"
    by simp
  also have "\<dots> = getEventsReducer (Map.empty, snd (getEvents w es)) e"
    by (rule getEventsReducer_acc)
  finally show ?thesis by (simp add: getEvents_single)
qed

lemma getEvents_last:
  assumes "es \<noteq> []"
  shows "getEvents w es = getEvents (snd (getEvents w (butlast es))) [last es]"
proof -
  from assms have "es = butlast es @ [last es]" by simp
  then have "getEvents w es = getEvents w (butlast es @ [last es])" by simp
  then show ?thesis by (simp only: getEvents_snoc)
qed

lemma dom_fillEventsReducer: "dom (fillEventsReducer m e) = {distinct_id e}"
  by (simp add: fillEventsReducer_def)

lemma fillEventsReducer_acc: "fillEventsReducer m e = fillEventsReducer Map.empty e"
  by (simp add: fillEventsReducer_def)

lemma fillEvents_snoc: "fillEvents (es @ [e]) = fillEvents [e]"
  by (simp add: fillEvents_def fillEventsReducer_acc [of "foldl fillEventsReducer Map.empty es"])

lemma fillEvents_last:
  assumes "es \<noteq> []"
  shows "fillEvents es = fillEvents [last es]"
proof -
  from assms have "es = butlast es @ [last es]" by simp
  then have "fillEvents es = fillEvents (butlast es @ [last es])" by simp
  then show ?thesis by (simp only: fillEvents_snoc)
qed

lemma dom_fillEvents_single: "dom (fillEvents [e]) = {distinct_id e}"
  by (simp add: fillEvents_def dom_fillEventsReducer)

text \<open>
  C9. For every input list, \<open>getEvents\<close> and \<open>fillEvents\<close> return a mapping with at
  most one entry: each pass of the \<open>reduce\<close> replaces the accumulator, so the result of
  a non-empty list is the record of its last event alone (built, for \<open>getEvents\<close>, in
  the world the earlier events leave behind), and the result of the empty list is empty.
\<close>

theorem record_builders_keep_last:
  "card (dom (fst (getEvents w es))) \<le> 1 \<and>
   card (dom (fillEvents es)) \<le> 1 \<and>
   (es = [] \<longrightarrow> fst (getEvents w es) = Map.empty \<and> fillEvents es = Map.empty) \<and>
   (es \<noteq> [] \<longrightarrow>
      fst (getEvents w es) = fst (getEvents (snd (getEvents w (butlast es))) [last es]) \<and>
      dom (fst (getEvents w es)) = {eventKeyOf (snd (getEvents w (butlast es))) (last es)} \<and>
      fillEvents es = fillEvents [last es] \<and>
      dom (fillEvents es) = {distinct_id (last es)})"
proof (cases "es = []")
  case True
  then show ?thesis by (simp add: getEvents_def fillEvents_def)
next
  case False
  have g: "fst (getEvents w es) = fst (getEvents (snd (getEvents w (butlast es))) [last es])"
    using getEvents_last [OF False, of w] by simp
  have f: "fillEvents es = fillEvents [last es]"
    by (rule fillEvents_last [OF False])
  have dg: "dom (fst (getEvents w es)) = {eventKeyOf (snd (getEvents w (butlast es))) (last es)}"
    by (simp only: g dom_getEvents_single)
  have df: "dom (fillEvents es) = {distinct_id (last es)}"
    by (simp only: f dom_fillEvents_single)
  have "card (dom (fst (getEvents w es))) \<le> 1" by (simp only: dg) simp
  moreover have "card (dom (fillEvents es)) \<le> 1" by (simp only: df) simp
  ultimately show ?thesis using False g f dg df by blast
qed

lemma getEvents_world_full:
  "uuid e = Some u \<Longrightarrow> timestamp e = Some t \<Longrightarrow> t \<noteq> [] \<Longrightarrow> snd (getEvents w [e]) = w"
  by (simp add: getEvents_single getEventsReducer_def)

text \<open>
  Two page views in one list: only the second one's record, keyed \<open>u2\<close>, is returned,
  and \<open>fillEvents\<close> returns one record under the distinct id.
\<close>

theorem record_builders_keep_last_witness:
  "[viewWidth, viewHeight] \<noteq> [] \<and>
   fst (getEvents sampleWorld [viewWidth, viewHeight]) = fst (getEvents sampleWorld [viewHeight]) \<and>
   dom (fst (getEvents sampleWorld [viewWidth, viewHeight])) = {''u2''} \<and>
   fillEvents [viewWidth, viewHeight] = fillEvents [viewHeight] \<and>
   dom (fillEvents [viewWidth, viewHeight]) = {''user1''}"
proof -
  have w: "snd (getEvents sampleWorld [viewWidth]) = sampleWorld"
    by (rule getEvents_world_full [where u = "''u1''" and t = "''2023-01-01T00:00:00.000Z''"])
      (simp_all add: viewWidth_def sampleEvent_def)
  have k: "eventKeyOf sampleWorld viewHeight = ''u2''"
    by (simp add: eventKeyOf_def viewHeight_def sampleEvent_def)
  have d: "distinct_id viewHeight = ''user1''"
    by (simp add: viewHeight_def sampleEvent_def)
  show ?thesis
    using record_builders_keep_last [of sampleWorld "[viewWidth, viewHeight]"] w k d
    by (simp add: dom_getEvents_single dom_fillEvents_single)
qed

subsection \<open>The event key\<close>

text \<open>
  C5, as amended. \<open>getEvents\<close> files the record of an event under the event's
  \<open>uuid\<close> when it has one and under the next result of \<open>randomUUID()\<close> when it has
  none; \<open>fillEvents\<close> in \<open>src/index.ts\<close> files it under the event's \<open>distinct_id\<close>.
\<close>

theorem event_key_rule:
  "(uuid e = Some u \<longrightarrow> dom (fst (getEvents w [e])) = {u}) \<and>
   (uuid e = None \<longrightarrow> dom (fst (getEvents w [e])) = {randomUUID w 0}) \<and>
   dom (fillEvents [e]) = {distinct_id e}"
  by (simp add: dom_getEvents_single dom_fillEvents_single eventKeyOf_def nextUUID_def)

theorem event_key_rule_witness:
  "uuid viewWidth = Some ''u1'' \<and>
   dom (fst (getEvents sampleWorld [viewWidth])) = {''u1''} \<and>
   uuid labelled = None \<and>
   dom (fst (getEvents sampleWorld [labelled])) = {''generated''} \<and>
   dom (fillEvents [viewWidth]) = {''user1''}"
proof -
  have a: "uuid viewWidth = Some ''u1''" by (simp add: viewWidth_def sampleEvent_def)
  have b: "uuid labelled = None" by (simp add: labelled_def sampleEvent_def)
  have c: "randomUUID sampleWorld 0 = ''generated''" by (simp add: sampleWorld_def)
  have d: "distinct_id viewWidth = ''user1''" by (simp add: viewWidth_def sampleEvent_def)
  show ?thesis
    using event_key_rule [of viewWidth "''u1''" sampleWorld]
      event_key_rule [of labelled "''u1''" sampleWorld] a b c d
    by simp
qed

text \<open>
  The claim as written fails on \<open>fillEvents\<close>: the page view carries the uuid \<open>u1\<close>,
  and its record is filed under the distinct id \<open>user1\<close>.
\<close>

theorem event_key_rule_counterexample:
  "uuid viewWidth = Some ''u1'' \<and>
   dom (fillEvents [viewWidth]) = {''user1''} \<and>
   ''u1'' \<notin> dom (fillEvents [viewWidth])"
  by (simp add: dom_fillEvents_single viewWidth_def sampleEvent_def)

subsection \<open>One pass of the dispatcher's callback\<close>

lemma randomUUID_batchKeyOf: "randomUUID (snd (batchKeyOf w e)) = randomUUID w"
  by (simp add: batchKeyOf_def nextRandom_def)

lemma eventKeyOf_batchKeyOf: "eventKeyOf (snd (batchKeyOf w e)) e = eventKeyOf w e"
  by (simp add: eventKeyOf_def nextUUID_def randomUUID_batchKeyOf split: option.splits)

lemma batchReducer_world: "snd (batchReducer (m, w) e) = afterEvent w e"
  by (simp add: batchReducer_def afterEvent_def Let_def case_prod_beta)

lemma batchReducer_map:
  "fst (batchReducer (m, w) e) =
     m(fst (batchKeyOf w e) \<mapsto>
        \<lparr>Endpoint = getEndpoint e,
         Events = (case m (fst (batchKeyOf w e)) of
                     Some item \<Rightarrow> fst (getEvents (snd (batchKeyOf w e)) [e]) ++ Events item
                   | None \<Rightarrow> fst (getEvents (snd (batchKeyOf w e)) [e]))\<rparr>)"
  by (simp add: batchReducer_def Let_def case_prod_beta)


lemma batchReducer_pair:
  "batchReducer (m, w) e = (fst (batchReducer (m, w) e), afterEvent w e)"
  by (simp add: prod_eq_iff batchReducer_world)

lemma foldl_batchReducer_Cons:
  "foldl batchReducer (m, w) (e # es) =
     foldl batchReducer (fst (batchReducer (m, w) e), afterEvent w e) es"
proof -
  have "foldl batchReducer (m, w) (e # es) = foldl batchReducer (batchReducer (m, w) e) es"
    by simp
  also have "batchReducer (m, w) e = (fst (batchReducer (m, w) e), afterEvent w e)"
    by (rule batchReducer_pair)
  finally show ?thesis .
qed

lemma batchKeyOf_device:
  "truthy (property e ''$device_id'') \<Longrightarrow>
     batchKeyOf w e = (ToString (property e ''$device_id''), w)"
  by (simp add: batchKeyOf_def)

subsection \<open>A whole run\<close>



lemma afterEvent_full:
  assumes "truthy (property e ''$device_id'')" and "uuid e = Some u"
    and "timestamp e = Some t" and "t \<noteq> []"
  shows "afterEvent w e = w"
  using assms
  by (simp add: afterEvent_def batchReducer_def Let_def case_prod_beta batchKeyOf_device
      getEvents_world_full)


lemma eventKeys_uuid:
  assumes "\<forall>e\<in>set es. uuid e \<noteq> None"
  shows "eventKeys w es = map (\<lambda>e. the (uuid e)) es"
  using assms by (induction es arbitrary: w) (auto simp: eventKeyOf_def)

lemma BatchItem_sendToPinpoint:
  "BatchItem (fst (sendToPinpoint cfg w es)) = fst (foldl batchReducer (Map.empty, w) es)"
  by (simp add: sendToPinpoint_def Let_def)

subsection \<open>The sample events\<close>

lemma sample_devices:
  "property viewWidth ''$device_id'' = JStr ''d1''"
  "property viewHeight ''$device_id'' = JStr ''d1''"
  "property clickSameId ''$device_id'' = JStr ''d1''"
  "property viewOtherDevice ''$device_id'' = JStr ''d2''"
  "property viewNumericDevice ''$device_id'' = JNum 5"
  "property viewTextDevice ''$device_id'' = JStr ''5''"
  "property labelled ''$device_id'' = JStr ''d1''"
  by (simp_all add: property_def member_def viewWidth_def viewHeight_def clickSameId_def
      viewOtherDevice_def viewNumericDevice_def viewTextDevice_def labelled_def sampleEvent_def)

lemma sample_uuids:
  "uuid viewWidth = Some ''u1''"
  "uuid viewHeight = Some ''u2''"
  "uuid clickSameId = Some ''u1''"
  "uuid viewOtherDevice = Some ''u3''"
  "uuid viewNumericDevice = Some ''u4''"
  "uuid viewTextDevice = Some ''u5''"
  "uuid labelled = None"
  by (simp_all add: viewWidth_def viewHeight_def clickSameId_def viewOtherDevice_def
      viewNumericDevice_def viewTextDevice_def labelled_def sampleEvent_def)


lemma afterEvent_sampleEvent:
  "truthy (member ps ''$device_id'') \<Longrightarrow> afterEvent w (sampleEvent name (Some u) (Some ps)) = w"
  by (rule afterEvent_full [where u = u and t = "''2023-01-01T00:00:00.000Z''"])
    (simp_all add: sampleEvent_def property_def)

lemma sample_after:
  "afterEvent w viewWidth = w"
  "afterEvent w viewHeight = w"
  "afterEvent w clickSameId = w"
  "afterEvent w viewOtherDevice = w"
  "afterEvent w viewNumericDevice = w"
  "afterEvent w viewTextDevice = w"
  by (simp_all add: viewWidth_def viewHeight_def clickSameId_def viewOtherDevice_def
      viewNumericDevice_def viewTextDevice_def afterEvent_sampleEvent member_def)

lemma sample_batchKeys:
  "fst (batchKeyOf w viewWidth) = ''d1''"
  "fst (batchKeyOf w viewHeight) = ''d1''"
  "fst (batchKeyOf w clickSameId) = ''d1''"
  "fst (batchKeyOf w viewOtherDevice) = ''d2''"
  "fst (batchKeyOf w viewTextDevice) = ''5''"
  by (simp_all add: batchKeyOf_device sample_devices)

lemma sample_eventKeys:
  "eventKeyOf w viewWidth = ''u1''"
  "eventKeyOf w viewHeight = ''u2''"
  "eventKeyOf w clickSameId = ''u1''"
  "eventKeyOf w viewOtherDevice = ''u3''"
  "eventKeyOf w viewNumericDevice = ''u4''"
  "eventKeyOf w viewTextDevice = ''u5''"
  by (simp_all add: eventKeyOf_def sample_uuids)


subsection \<open>Endpoint of a batch item\<close>



subsection \<open>Grouping\<close>





subsection \<open>Merging into an existing batch item\<close>

text \<open>
  C6, as amended. When the batch key of an event already has a batch item, the callback
  keeps every entry of the item's event mapping as it is, also the entry under the new
  event's own key if there is one: the new event's record is added only when its key is
  not yet in the mapping. The callbacks of both variants merge in this order.
\<close>

theorem merge_keeps_existing_entries:
  assumes "m (fst (batchKeyOf w e)) = Some old"
  shows "(\<exists>item. fst (batchReducer (m, w) e) (fst (batchKeyOf w e)) = Some item \<and>
            (\<forall>ek\<in>dom (Events old). Events item ek = Events old ek) \<and>
            dom (Events item) = insert (eventKeyOf w e) (dom (Events old)) \<and>
            (eventKeyOf w e \<notin> dom (Events old) \<longrightarrow>
               Events item (eventKeyOf w e) =
                 fst (getEvents (snd (batchKeyOf w e)) [e]) (eventKeyOf w e))) \<and>
         (\<exists>r item. batchReducer_index (m, w) e = Inr r \<and>
            fst r (fst (batchKeyOf w e)) = Some item \<and>
            (\<forall>ek\<in>dom (Events old). Events item ek = Events old ek) \<and>
            dom (Events item) = insert (distinct_id e) (dom (Events old)) \<and>
            (distinct_id e \<notin> dom (Events old) \<longrightarrow>
               Events item (distinct_id e) = fillEvents [e] (distinct_id e)))"
proof -
  let ?new = "fst (getEvents (snd (batchKeyOf w e)) [e])"
  have dn: "dom ?new = {eventKeyOf w e}"
    by (simp add: dom_getEvents_single eventKeyOf_batchKeyOf)
  have "fst (batchReducer (m, w) e) (fst (batchKeyOf w e))
      = Some \<lparr>Endpoint = getEndpoint e, Events = ?new ++ Events old\<rparr>"
    by (simp add: batchReducer_map assms)
  moreover have "\<forall>ek\<in>dom (Events old). (?new ++ Events old) ek = Events old ek"
    by (auto simp: map_add_def)
  moreover have "dom (?new ++ Events old) = insert (eventKeyOf w e) (dom (Events old))"
    using dn by auto
  moreover have "(?new ++ Events old) (eventKeyOf w e) = ?new (eventKeyOf w e)"
    if "eventKeyOf w e \<notin> dom (Events old)"
    using that by (simp add: map_add_def domIff split: option.splits)
  moreover have "batchReducer_index (m, w) e
      = Inr (m(fst (batchKeyOf w e) \<mapsto>
               \<lparr>Endpoint = fillEndpoint e, Events = fillEvents [e] ++ Events old\<rparr>),
             snd (batchKeyOf w e))"
    by (simp add: batchReducer_index_def Let_def case_prod_beta assms)
  moreover have "\<forall>ek\<in>dom (Events old). (fillEvents [e] ++ Events old) ek = Events old ek"
    by (auto simp: map_add_def)
  moreover have "dom (fillEvents [e] ++ Events old) = insert (distinct_id e) (dom (Events old))"
    using dom_fillEvents_single [of e] by auto
  moreover have "(fillEvents [e] ++ Events old) (distinct_id e) = fillEvents [e] (distinct_id e)"
    if "distinct_id e \<notin> dom (Events old)"
    using that by (simp add: map_add_def domIff split: option.splits)
  ultimately show ?thesis by simp
qed

lemma getEvents_single_EventType:
  "map_option EventType (fst (getEvents w [e]) (eventKeyOf w e)) = Some (event e)"
  by (simp add: getEvents_single getEventsReducer_def eventKeyOf_def Let_def case_prod_beta)

lemma fillEvents_single_EventType:
  "map_option EventType (fillEvents [e] (distinct_id e)) = Some (event e)"
  by (simp add: fillEvents_def fillEventsReducer_def)

lemma sample_names:
  "event viewWidth = ''pageview''" "event clickSameId = ''click''"
  "distinct_id viewWidth = ''user1''" "distinct_id clickSameId = ''user1''"
  by (simp_all add: viewWidth_def clickSameId_def sampleEvent_def)

text \<open>
  A batch item of device \<open>d1\<close> holds the page view under \<open>u1\<close>. Merging the click,
  whose uuid is \<open>u1\<close> too, leaves the page view in place in the first variant; in
  \<open>src/index.ts\<close> the entry under \<open>u1\<close> stays and the click is added under the
  distinct id.
\<close>

theorem merge_keeps_existing_entries_witness:
  "[''d1'' \<mapsto> \<lparr>Endpoint = getEndpoint viewWidth, Events = fst (getEvents sampleWorld [viewWidth])\<rparr>]
      (fst (batchKeyOf sampleWorld clickSameId))
     = Some \<lparr>Endpoint = getEndpoint viewWidth, Events = fst (getEvents sampleWorld [viewWidth])\<rparr> \<and>
   (\<exists>item.
      fst (batchReducer
             ([''d1'' \<mapsto> \<lparr>Endpoint = getEndpoint viewWidth,
                          Events = fst (getEvents sampleWorld [viewWidth])\<rparr>], sampleWorld)
             clickSameId) ''d1'' = Some item \<and>
      dom (Events item) = {''u1''} \<and>
      map_option EventType (Events item ''u1'') = Some ''pageview'') \<and>
   (\<exists>r item.
      batchReducer_index
        ([''d1'' \<mapsto> \<lparr>Endpoint = getEndpoint viewWidth,
                     Events = fst (getEvents sampleWorld [viewWidth])\<rparr>], sampleWorld)
        clickSameId = Inr r \<and>
      fst r ''d1'' = Some item \<and>
      dom (Events item) = {''user1'', ''u1''} \<and>
      map_option EventType (Events item ''u1'') = Some ''pageview'' \<and>
      map_option EventType (Events item ''user1'') = Some ''click'')"
proof -
  let ?old = "\<lparr>Endpoint = getEndpoint viewWidth, Events = fst (getEvents sampleWorld [viewWidth])\<rparr>"
  let ?m = "[''d1'' \<mapsto> ?old]"
  have k: "fst (batchKeyOf sampleWorld clickSameId) = ''d1''"
    by (simp add: sample_batchKeys)
  have hyp: "?m (fst (batchKeyOf sampleWorld clickSameId)) = Some ?old"
    by (simp add: k)
  have d: "dom (Events ?old) = {''u1''}"
    by (simp add: dom_getEvents_single sample_eventKeys)
  have t: "map_option EventType (Events ?old ''u1'') = Some ''pageview''"
    using getEvents_single_EventType [of sampleWorld viewWidth]
    by (simp add: sample_eventKeys sample_names)
  have c: "map_option EventType (fillEvents [clickSameId] ''user1'') = Some ''click''"
    using fillEvents_single_EventType [of clickSameId] by (simp add: sample_names)
  note merged = merge_keeps_existing_entries [of ?m sampleWorld clickSameId ?old, OF hyp]
  from merged [THEN conjunct1]
  obtain item where
    a1: "fst (batchReducer (?m, sampleWorld) clickSameId) (fst (batchKeyOf sampleWorld clickSameId))
          = Some item"
    and a2: "\<forall>ek\<in>dom (Events ?old). Events item ek = Events ?old ek"
    and a3: "dom (Events item) = insert (eventKeyOf sampleWorld clickSameId) (dom (Events ?old))"
    by (elim exE conjE)
  from merged [THEN conjunct2]
  obtain r item' where
    b1: "batchReducer_index (?m, sampleWorld) clickSameId = Inr r"
    and b2: "fst r (fst (batchKeyOf sampleWorld clickSameId)) = Some item'"
    and b3: "\<forall>ek\<in>dom (Events ?old). Events item' ek = Events ?old ek"
    and b4: "dom (Events item') = insert (distinct_id clickSameId) (dom (Events ?old))"
    and b5: "distinct_id clickSameId \<notin> dom (Events ?old) \<longrightarrow>
               Events item' (distinct_id clickSameId)
                 = fillEvents [clickSameId] (distinct_id clickSameId)"
    by (elim exE conjE)
  have i1: "Events item ''u1'' = Events ?old ''u1''"
    using a2 by (simp add: dom_getEvents_single sample_eventKeys)
  have i2: "Events item' ''u1'' = Events ?old ''u1''"
    using b3 by (simp add: dom_getEvents_single sample_eventKeys)
  have i3: "Events item' ''user1'' = fillEvents [clickSameId] ''user1''"
    using b5 by (simp add: dom_getEvents_single sample_eventKeys sample_names)
  have X: "fst (batchReducer (?m, sampleWorld) clickSameId) ''d1'' = Some item \<and>
      dom (Events item) = {''u1''} \<and>
      map_option EventType (Events item ''u1'') = Some ''pageview''"
    using a1 a3 d t by (simp add: k i1 sample_eventKeys)
  have A: "\<exists>item. fst (batchReducer (?m, sampleWorld) clickSameId) ''d1'' = Some item \<and>
      dom (Events item) = {''u1''} \<and>
      map_option EventType (Events item ''u1'') = Some ''pageview''"
    by (rule exI [where x = item], rule X)
  have Y: "batchReducer_index (?m, sampleWorld) clickSameId = Inr r \<and>
      fst r ''d1'' = Some item' \<and>
      dom (Events item') = {''user1'', ''u1''} \<and>
      map_option EventType (Events item' ''u1'') = Some ''pageview'' \<and>
      map_option EventType (Events item' ''user1'') = Some ''click''"
    using b1 b2 b4 d t c by (simp add: k i2 i3 sample_names)
  have B: "\<exists>r item. batchReducer_index (?m, sampleWorld) clickSameId = Inr r \<and>
      fst r ''d1'' = Some item \<and>
      dom (Events item) = {''user1'', ''u1''} \<and>
      map_option EventType (Events item ''u1'') = Some ''pageview'' \<and>
      map_option EventType (Events item ''user1'') = Some ''click''"
    by (rule exI [where x = r], rule exI [where x = item'], rule Y)
  show ?thesis by (rule conjI [OF hyp conjI [OF A B]])
qed

text \<open>
  The claim as written fails where both events produce the same event key: the page view
  and the click of device \<open>d1\<close> both have the key \<open>u1\<close>, and after the run the entry
  under \<open>u1\<close> is the page view, the earlier event, not the click.
\<close>

theorem merge_same_key_counterexample:
  "fst (batchKeyOf sampleWorld viewWidth) = ''d1'' \<and>
   fst (batchKeyOf sampleWorld clickSameId) = ''d1'' \<and>
   eventKeyOf sampleWorld viewWidth = ''u1'' \<and>
   eventKeyOf sampleWorld clickSameId = ''u1'' \<and>
   event clickSameId = ''click'' \<and>
   map_option EventType
     (Events (the (BatchItem (fst (sendToPinpoint sampleConfig sampleWorld
                                     [viewWidth, clickSameId])) ''d1'')) ''u1'')
     = Some ''pageview'' \<and>
   map_option EventType
     (Events (the (BatchItem (fst (sendToPinpoint sampleConfig sampleWorld
                                     [viewWidth, clickSameId])) ''d1'')) ''u1'')
     \<noteq> Some (event clickSameId)"
proof -
  let ?m1 = "fst (batchReducer (Map.empty, sampleWorld) viewWidth)"
  have run: "fst (foldl batchReducer (Map.empty, sampleWorld) [viewWidth, clickSameId])
      = fst (batchReducer (?m1, sampleWorld) clickSameId)"
    by (simp only: foldl_batchReducer_Cons sample_after foldl_Nil fst_conv)
  have m1: "?m1 ''d1'' = Some \<lparr>Endpoint = getEndpoint viewWidth,
                               Events = fst (getEvents sampleWorld [viewWidth])\<rparr>"
    by (simp add: batchReducer_map sample_batchKeys batchKeyOf_device sample_devices)
  have t: "map_option EventType (fst (getEvents sampleWorld [viewWidth]) ''u1'') = Some ''pageview''"
    using getEvents_single_EventType [of sampleWorld viewWidth]
    by (simp add: sample_eventKeys sample_names)
  have "map_option EventType
     (Events (the (fst (batchReducer (?m1, sampleWorld) clickSameId) ''d1'')) ''u1'')
     = Some ''pageview''"
    using t
    by (auto simp: batchReducer_map [of ?m1] sample_batchKeys m1 map_add_def
        split: option.splits)
  then have x: "map_option EventType
     (Events (the (BatchItem (fst (sendToPinpoint sampleConfig sampleWorld
                                     [viewWidth, clickSameId])) ''d1'')) ''u1'')
     = Some ''pageview''"
    unfolding BatchItem_sendToPinpoint run .
  show ?thesis
    unfolding x by (simp add: sample_batchKeys sample_eventKeys sample_names)
qed

subsection \<open>Determinism of the dispatch\<close>









text \<open>
  An event without a uuid is filed under the generated id, which differs between the two
  worlds.
\<close>

lemma dispatch_depends_on_world_without_uuid:
  "dom (fst (getEvents sampleWorld [labelled])) = {''generated''} \<and>
   dom (fst (getEvents otherWorld [labelled])) = {''another''}"
  by (simp add: dom_getEvents_single eventKeyOf_def nextUUID_def sample_uuids sampleWorld_def
      otherWorld_def)

subsection \<open>Attribute coercion\<close>

lemma stringify_None_iff: "stringify v = None \<longleftrightarrow> v = JUndefined"
  by (cases v) simp_all

lemma JSON_stringify_string: "v \<noteq> JUndefined \<Longrightarrow> \<exists>s. JSON_stringify v = JStr s"
  by (cases "stringify v") (simp_all add: JSON_stringify_def stringify_None_iff)

lemma foldl_attributes:
  "foldl (\<lambda>attributes key. [key \<mapsto> f key] ++ attributes) acc keys k =
     (case acc k of
        Some v \<Rightarrow> Some v
      | None \<Rightarrow> if k \<in> set keys then Some (f k) else None)"
proof (induction keys arbitrary: acc)
  case Nil
  show ?case by (simp split: option.splits)
next
  case (Cons key keys)
  show ?case
    unfolding foldl_Cons Cons.IH
    by (auto simp: map_add_def split: option.splits)
qed

lemma fillEvents_single_Attributes:
  "\<exists>r. fillEvents [e] (distinct_id e) = Some r \<and>
       (\<forall>key. Attributes r key =
          (if key \<in> set (propertyKeys e) then Some (JSON_stringify (property e key)) else None))"
  by (simp add: fillEvents_def fillEventsReducer_def foldl_attributes)

lemma getEvents_single_Attributes:
  "\<exists>r. fst (getEvents w [e]) (eventKeyOf w e) = Some r \<and>
       (\<forall>key. Attributes r key =
          (if key \<in> set (propertyKeys e) then Some (getAttribute (Some (eventField e)) key)
           else None))"
  by (simp add: getEvents_single getEventsReducer_def eventKeyOf_def Let_def case_prod_beta
      foldl_attributes)

lemma getAttribute_cases:
  "getAttribute (Some obj) key =
     (case obj key of
        JUndefined \<Rightarrow> JUndefined
      | JBool b \<Rightarrow> JStr (if b then ''true'' else ''false'')
      | JNum n \<Rightarrow> JStr (numberToString n)
      | JStr s \<Rightarrow> JStr s
      | v \<Rightarrow> JSON_stringify v)"
  by (cases "obj key") (simp_all add: getAttribute_def typeof_def JSON_stringify_def)

text \<open>
  C3, as amended. \<open>getAttribute\<close>, applied to a property mapping and a key, returns
  the value itself when it is a string, its string representation when it is a number or
  a boolean, \<open>undefined\<close> when it is \<open>undefined\<close> (the key is missing), and its JSON
  serialization otherwise; for every value but \<open>undefined\<close> the result is a string.
  \<open>fillEvents\<close> of \<open>src/index.ts\<close> sets the attribute of every key of the property
  mapping to the JSON serialization of the value, strings included; it is a string for
  every value but \<open>undefined\<close>. Both are total functions.
\<close>

theorem attribute_coercion:
  "getAttribute (Some (member ps)) key =
     (case member ps key of
        JUndefined \<Rightarrow> JUndefined
      | JBool b \<Rightarrow> JStr (if b then ''true'' else ''false'')
      | JNum n \<Rightarrow> JStr (numberToString n)
      | JStr s \<Rightarrow> JStr s
      | v \<Rightarrow> JSON_stringify v) \<and>
   (member ps key \<noteq> JUndefined \<longrightarrow> (\<exists>s. getAttribute (Some (member ps)) key = JStr s)) \<and>
   (\<exists>r. fillEvents [e] (distinct_id e) = Some r \<and>
      (\<forall>k\<in>set (propertyKeys e).
         Attributes r k = Some (JSON_stringify (property e k)) \<and>
         (property e k \<noteq> JUndefined \<longrightarrow> (\<exists>s. Attributes r k = Some (JStr s)))))"
proof -
  have a: "getAttribute (Some (member ps)) key =
     (case member ps key of
        JUndefined \<Rightarrow> JUndefined
      | JBool b \<Rightarrow> JStr (if b then ''true'' else ''false'')
      | JNum n \<Rightarrow> JStr (numberToString n)
      | JStr s \<Rightarrow> JStr s
      | v \<Rightarrow> JSON_stringify v)"
    by (rule getAttribute_cases)
  have b: "\<exists>s. getAttribute (Some (member ps)) key = JStr s" if "member ps key \<noteq> JUndefined"
    using that JSON_stringify_string [of "member ps key"]
    by (cases "member ps key") (simp_all add: a)
  obtain r where r: "fillEvents [e] (distinct_id e) = Some r"
    and attrs: "\<forall>k. Attributes r k =
          (if k \<in> set (propertyKeys e) then Some (JSON_stringify (property e k)) else None)"
    using fillEvents_single_Attributes [of e] by (elim exE conjE)
  have c: "\<forall>k\<in>set (propertyKeys e).
         Attributes r k = Some (JSON_stringify (property e k)) \<and>
         (property e k \<noteq> JUndefined \<longrightarrow> (\<exists>s. Attributes r k = Some (JStr s)))"
    using JSON_stringify_string by (simp add: attrs)
  have "\<exists>r. fillEvents [e] (distinct_id e) = Some r \<and>
      (\<forall>k\<in>set (propertyKeys e).
         Attributes r k = Some (JSON_stringify (property e k)) \<and>
         (property e k \<noteq> JUndefined \<longrightarrow> (\<exists>s. Attributes r k = Some (JStr s))))"
    by (rule exI [where x = r], rule conjI [OF r c])
  with a b show ?thesis by simp
qed

lemma quoted_x: "JSON_stringify (JStr ''x'') = JStr [CHR 0x22, CHR ''x'', CHR 0x22]"
  by (simp add: JSON_stringify_def quoteJSON_def jsonEscape_def)

lemma labelled_facts:
  "propertyKeys labelled = [''$device_id'', ''label'']"
  "property labelled ''label'' = JStr ''x''"
  "distinct_id labelled = ''user1''"
  by (simp_all add: propertyKeys_def property_def member_def labelled_def sampleEvent_def)

text \<open>
  The property \<open>label\<close> with the string value \<open>x\<close>: \<open>getAttribute\<close> returns \<open>x\<close>,
  and the record of \<open>fillEvents\<close> has the attribute \<open>"x"\<close>, quotes included.
\<close>

theorem attribute_coercion_witness:
  "member [(''label'', JStr ''x'')] ''label'' \<noteq> JUndefined \<and>
   getAttribute (Some (member [(''label'', JStr ''x'')])) ''label'' = JStr ''x'' \<and>
   ''label'' \<in> set (propertyKeys labelled) \<and>
   (\<exists>r. fillEvents [labelled] ''user1'' = Some r \<and>
      Attributes r ''label'' = Some (JStr [CHR 0x22, CHR ''x'', CHR 0x22]))"
proof -
  note inst = attribute_coercion [of "[(''label'', JStr ''x'')]" "''label''" labelled]
  have m: "member [(''label'', JStr ''x'')] ''label'' = JStr ''x''"
    by (simp add: member_def)
  have g: "getAttribute (Some (member [(''label'', JStr ''x'')])) ''label'' = JStr ''x''"
    using inst [THEN conjunct1] by (simp add: m)
  from inst [THEN conjunct2, THEN conjunct2]
  obtain r where r: "fillEvents [labelled] (distinct_id labelled) = Some r"
    and attrs: "\<forall>k\<in>set (propertyKeys labelled).
         Attributes r k = Some (JSON_stringify (property labelled k)) \<and>
         (property labelled k \<noteq> JUndefined \<longrightarrow> (\<exists>s. Attributes r k = Some (JStr s)))"
    by (elim exE conjE)
  have k: "''label'' \<in> set (propertyKeys labelled)"
    by (simp add: labelled_facts)
  have "Attributes r ''label'' = Some (JSON_stringify (property labelled ''label''))"
    using attrs k by (simp add: labelled_facts)
  then have q: "fillEvents [labelled] ''user1'' = Some r \<and>
      Attributes r ''label'' = Some (JStr [CHR 0x22, CHR ''x'', CHR 0x22])"
    using r by (simp add: labelled_facts quoted_x)
  have e: "\<exists>r. fillEvents [labelled] ''user1'' = Some r \<and>
      Attributes r ''label'' = Some (JStr [CHR 0x22, CHR ''x'', CHR 0x22])"
    by (rule exI [where x = r], rule q)
  have n: "member [(''label'', JStr ''x'')] ''label'' \<noteq> JUndefined"
    by (simp add: m)
  show ?thesis by (rule conjI [OF n conjI [OF g conjI [OF k e]]])
qed

text \<open>
  The claim as written fails on \<open>fillEvents\<close>, where a string does not pass through
  unchanged: the value \<open>x\<close> becomes the three characters \<open>"x"\<close>. It also fails on a
  property whose value is \<open>undefined\<close>: \<open>getAttribute\<close> returns \<open>undefined\<close>, which is
  not a string.
\<close>

theorem attribute_coercion_counterexample:
  "property labelled ''label'' = JStr ''x'' \<and>
   fillEvents [labelled] ''user1'' \<noteq> None \<and>
   Attributes (the (fillEvents [labelled] ''user1'')) ''label''
     = Some (JStr [CHR 0x22, CHR ''x'', CHR 0x22]) \<and>
   JStr [CHR 0x22, CHR ''x'', CHR 0x22] \<noteq> JStr ''x'' \<and>
   getAttribute (Some (member [(''missing'', JUndefined)])) ''missing'' = JUndefined"
proof -
  obtain r where r: "fillEvents [labelled] (distinct_id labelled) = Some r"
    and attrs: "\<forall>key. Attributes r key =
          (if key \<in> set (propertyKeys labelled)
           then Some (JSON_stringify (property labelled key)) else None)"
    using fillEvents_single_Attributes [of labelled] by (elim exE conjE)
  have a: "Attributes r ''label'' = Some (JStr [CHR 0x22, CHR ''x'', CHR 0x22])"
    by (simp add: attrs labelled_facts quoted_x)
  have r': "fillEvents [labelled] ''user1'' = Some r"
    using r by (simp add: labelled_facts)
  have u: "getAttribute (Some (member [(''missing'', JUndefined)])) ''missing'' = JUndefined"
    by (simp add: getAttribute_cases member_def)
  show ?thesis
    by (simp add: r' a u labelled_facts)
qed

text \<open>
  \<open>getEvents\<close> calls \<open>getAttribute(event, key)\<close>: the object it hands over is the
  event, not the event's properties, so the key is looked up among the fields of the
  event. For the property \<open>label\<close> of the sample event the attribute is \<open>undefined\<close>.
\<close>

lemma getEvents_attribute_reads_event:
  "property labelled ''label'' = JStr ''x'' \<and>
   eventField labelled ''label'' = JUndefined \<and>
   map_option (\<lambda>r. Attributes r ''label'') (fst (getEvents sampleWorld [labelled]) ''generated'')
     = Some (Some JUndefined)"
proof -
  have k: "eventKeyOf sampleWorld labelled = ''generated''"
    by (simp add: eventKeyOf_def nextUUID_def sample_uuids sampleWorld_def)
  have f: "eventField labelled ''label'' = JUndefined"
    by (simp add: eventField_def labelled_def sampleEvent_def member_def)
  obtain r where r: "fst (getEvents sampleWorld [labelled]) (eventKeyOf sampleWorld labelled) = Some r"
    and attrs: "\<forall>key. Attributes r key =
          (if key \<in> set (propertyKeys labelled)
           then Some (getAttribute (Some (eventField labelled)) key) else None)"
    using getEvents_single_Attributes [of sampleWorld labelled] by (elim exE conjE)
  have "Attributes r ''label'' = Some JUndefined"
    by (simp add: attrs labelled_facts getAttribute_cases f)
  then have "map_option (\<lambda>r. Attributes r ''label'')
      (fst (getEvents sampleWorld [labelled]) ''generated'') = Some (Some JUndefined)"
    using r by (simp add: k)
  then show ?thesis by (simp add: labelled_facts f)
qed

subsection \<open>Flushing an empty list\<close>

text \<open>
  C4, as amended. The flush callback of \<open>src/unnamed/part_000\<close> submits nothing when
  it is invoked with an empty list. The flush callback of \<open>src/index.ts\<close> has no such
  guard: invoked with an empty list it submits one command, whose batch-item mapping is
  empty.
\<close>

theorem empty_flush:
  "onFlush cfg w [] = [] \<and>
   onFlush_index cfg w [] = Inr [\<lparr>ApplicationId = applicationId cfg, BatchItem = Map.empty\<rparr>]"
  by (simp add: onFlush_def onFlush_index_def sendToPinpoint_index_def)

text \<open>
  The claim as written fails on \<open>src/index.ts\<close>: flushing the empty list submits a
  command.
\<close>

theorem empty_flush_counterexample:
  "onFlush_index sampleConfig sampleWorld []
     = Inr [\<lparr>ApplicationId = Some ''app'', BatchItem = Map.empty\<rparr>] \<and>
   onFlush_index sampleConfig sampleWorld [] \<noteq> Inr []"
  by (simp add: onFlush_index_def sendToPinpoint_index_def sampleConfig_def)

subsection \<open>Exceptions of the dispatcher\<close>

text \<open>
  In \<open>src/index.ts\<close> the first event of a run finds no batch item under its key, and
  the callback throws: no non-empty list is ever dispatched.
\<close>

lemma sendToPinpoint_index_throws:
  assumes "es \<noteq> []"
  shows "sendToPinpoint_index cfg w es = Inl TypeError"
proof -
  from assms obtain e es' where es: "es = e # es'"
    by (cases es) simp_all
  have "batchReducer_index (Map.empty, w) e = Inl TypeError"
    by (simp add: batchReducer_index_def Let_def case_prod_beta)
  then show ?thesis
    by (simp add: sendToPinpoint_index_def es)
qed

text \<open>
  C2. The claim holds for \<open>sendToPinpoint\<close> of \<open>src/unnamed/part_000\<close>, which tests
  \<open>batchEvents[batchKey]\<close> before it reads \<open>Events\<close>, and fails for the one of
  \<open>src/index.ts\<close>: dispatching the single page view of device \<open>d1\<close> throws a
  \<open>TypeError\<close>, and nothing is submitted.
\<close>

theorem dispatch_throws_in_index:
  "sendToPinpoint_index sampleConfig sampleWorld [viewWidth] = Inl TypeError"
  by (simp add: sendToPinpoint_index_throws)

end
